theory Spec2Isabelle
  imports Main
begin

section \<open>Errors\<close>

text \<open>
  Go errors as they are built in \<^verbatim>\<open>bind_friend.go\<close>: \<^verbatim>\<open>fmt.Errorf\<close> with a plain format
  string gives an error that carries only its message; \<^verbatim>\<open>fmt.Errorf\<close> with \<^verbatim>\<open>%w\<close> gives an
  error that carries the text before the verb and the wrapped cause.
\<close>

datatype error = Errorf string | Wrapf string error

text \<open>The method \<^verbatim>\<open>Error()\<close>: the message of an error.\<close>

fun Error_msg :: "error \<Rightarrow> string" where
  "Error_msg (Errorf m) = m"
| "Error_msg (Wrapf p e) = p @ Error_msg e"

text \<open>\<^verbatim>\<open>errors.Unwrap\<close>: the cause of a wrapping error.\<close>

fun Unwrap :: "error \<Rightarrow> error option" where
  "Unwrap (Errorf m) = None"
| "Unwrap (Wrapf p e) = Some e"

text \<open>
  The error values of \<^verbatim>\<open>BindInvitation\<close>, under the names of the error taxonomy. Each is
  the value the source builds, with the format string of the source.
\<close>

abbreviation InvalidInvitationCode :: error where
  "InvalidInvitationCode \<equiv> Errorf ''service.BindInvitation: Invalid InvitationCode''"

abbreviation CacheLookupFailed :: "error \<Rightarrow> error" where
  "CacheLookupFailed e \<equiv> Wrapf ''service.GetCodeStuIdMappingCode: '' e"

abbreviation SelfBindingNotAllowed :: error where
  "SelfBindingNotAllowed \<equiv> Errorf ''service.BindInvitation: cannot add yourself as friend''"

abbreviation RelationLookupFailed :: "error \<Rightarrow> error" where
  "RelationLookupFailed e \<equiv> Wrapf ''service.GetRelationByUserId: '' e"

abbreviation RelationAlreadyExists :: error where
  "RelationAlreadyExists \<equiv> Errorf ''service.BindInvitation: RelationShip Already Exist''"

abbreviation RelationCreateFailed :: "error \<Rightarrow> error" where
  "RelationCreateFailed e \<equiv> Wrapf ''service.CreateRelation: '' e"


section \<open>The collaborators of the service\<close>

text \<open>
  \<^verbatim>\<open>dbmodel.FollowRelation\<close> is declared outside the examined files; \<^verbatim>\<open>BindInvitation\<close>
  discards the value (\<^verbatim>\<open>ok, _, err := ...\<close>), so the type stays abstract.
\<close>

typedecl FollowRelation

text \<open>
  The cache client, the database client and the service's own method
  \<^verbatim>\<open>IsFriendNumsConfined\<close> are declared outside the examined files (the test replaces each
  of them by a mock). They are parameters of the model: one field per method, with the
  Go result tuple as a tuple and a nil error as \<open>None\<close>. The context argument is dropped.
\<close>

record UserService =
  IsKeyExist :: "string \<Rightarrow> bool"
  GetCodeStuIdMappingCache :: "string \<Rightarrow> string \<times> error option"
  GetRelationByUserId :: "string \<Rightarrow> string \<Rightarrow> bool \<times> FollowRelation option \<times> error option"
  CreateRelation :: "string \<Rightarrow> string \<Rightarrow> error option"
  SetUserFriendCache :: "string \<Rightarrow> string \<Rightarrow> error option"
  RemoveCodeStuIdMappingCache :: "string \<Rightarrow> error option"
  IsFriendNumsConfined :: "string \<Rightarrow> bool \<times> error option"

text \<open>
  What a run does to the outside world is the sequence of calls it makes on the
  collaborators, with their arguments, and the lines it logs.
\<close>

datatype event =
    CacheIsKeyExist string
  | CacheGetCodeStuIdMapping string
  | DBGetRelationByUserId string string
  | DBCreateRelation string string
  | ConfinedCheck string
  | CacheSetUserFriend string string
  | CacheRemoveCodeStuIdMapping string
  | LoggerErrorf string

text \<open>
  A goroutine started by \<^verbatim>\<open>go func() {...}()\<close>: the closure of \<^verbatim>\<open>BindInvitation\<close> with the
  two variables it captures, \<^verbatim>\<open>friendId\<close> and \<^verbatim>\<open>stuId\<close>.
\<close>

datatype goroutine = BindInvitation_func1 string string

text \<open>
  The result of a call: the returned error (\<open>None\<close> for nil), the calls made before the
  return, in order, and the goroutines started and left running at the return.
\<close>

record outcome =
  ret :: "error option"
  calls :: "event list"
  spawned :: "goroutine list"


section \<open>BindInvitation\<close>

definition BindInvitation :: "UserService \<Rightarrow> string \<Rightarrow> string \<Rightarrow> outcome" where
  "BindInvitation s stuId code =
    (let mapKey = ''code_mapping:'' @ code;
         exist = IsKeyExist s mapKey;
         t1 = [CacheIsKeyExist mapKey]
     in if \<not> exist then
          \<lparr>ret = Some (Errorf ''service.BindInvitation: Invalid InvitationCode''),
           calls = t1, spawned = []\<rparr>
        else
          (case GetCodeStuIdMappingCache s mapKey of (friendId, err) \<Rightarrow>
            let t2 = t1 @ [CacheGetCodeStuIdMapping mapKey] in
            (case err of
               Some e \<Rightarrow>
                 \<lparr>ret = Some (Wrapf ''service.GetCodeStuIdMappingCode: '' e),
                  calls = t2, spawned = []\<rparr>
             | None \<Rightarrow>
                 if friendId = stuId then
                   \<lparr>ret = Some (Errorf ''service.BindInvitation: cannot add yourself as friend''),
                    calls = t2, spawned = []\<rparr>
                 else
                   (case GetRelationByUserId s stuId friendId of (ok, _, err) \<Rightarrow>
                     let t3 = t2 @ [DBGetRelationByUserId stuId friendId] in
                     (case err of
                        Some e \<Rightarrow>
                          \<lparr>ret = Some (Wrapf ''service.GetRelationByUserId: '' e),
                           calls = t3, spawned = []\<rparr>
                      | None \<Rightarrow>
                          if ok then
                            \<lparr>ret = Some (Errorf ''service.BindInvitation: RelationShip Already Exist''),
                             calls = t3, spawned = []\<rparr>
                          else
                            (let err = CreateRelation s stuId friendId;
                                 t4 = t3 @ [DBCreateRelation stuId friendId]
                             in case err of
                                  Some e \<Rightarrow>
                                    \<lparr>ret = Some (Wrapf ''service.CreateRelation: '' e),
                                     calls = t4, spawned = []\<rparr>
                                | None \<Rightarrow>
                                    \<lparr>ret = None, calls = t4,
                                     spawned = [BindInvitation_func1 friendId stuId]\<rparr>))))))"

text \<open>
  The body of the goroutine: one call of \<^verbatim>\<open>SetUserFriendCache(friendId, stuId)\<close>, and one
  logged line when it fails. It returns nothing; its effect is the calls it makes.
\<close>

fun run_goroutine :: "UserService \<Rightarrow> goroutine \<Rightarrow> event list" where
  "run_goroutine s (BindInvitation_func1 friendId stuId) =
    (let err = SetUserFriendCache s friendId stuId;
         t = [CacheSetUserFriend friendId stuId]
     in case err of
          Some e \<Rightarrow> t @ [LoggerErrorf (''service. SetUserFriendCache: '' @ Error_msg e)]
        | None \<Rightarrow> t)"

text \<open>The calls made in the background once every started goroutine has run.\<close>

definition background :: "UserService \<Rightarrow> outcome \<Rightarrow> event list" where
  "background s r = concat (map (run_goroutine s) (spawned r))"

text \<open>Every call of a run: those before the return, then those of the background.\<close>

definition all_calls :: "UserService \<Rightarrow> outcome \<Rightarrow> event list" where
  "all_calls s r = calls r @ background s r"


section \<open>Classifying the calls\<close>

fun is_CreateRelation :: "event \<Rightarrow> bool" where
  "is_CreateRelation (DBCreateRelation a b) = True"
| "is_CreateRelation _ = False"

fun is_GetRelationByUserId :: "event \<Rightarrow> bool" where
  "is_GetRelationByUserId (DBGetRelationByUserId a b) = True"
| "is_GetRelationByUserId _ = False"

fun is_GetCodeStuIdMapping :: "event \<Rightarrow> bool" where
  "is_GetCodeStuIdMapping (CacheGetCodeStuIdMapping k) = True"
| "is_GetCodeStuIdMapping _ = False"

text \<open>A call on the relationship store (the database client).\<close>

fun is_store_call :: "event \<Rightarrow> bool" where
  "is_store_call (DBCreateRelation a b) = True"
| "is_store_call (DBGetRelationByUserId a b) = True"
| "is_store_call _ = False"

text \<open>
  Modelled from the spec: the cache client is declared outside the examined files, so
  which of its methods write is taken from the collaborator contract.
  \<^verbatim>\<open>SetUserFriendCache\<close> and \<^verbatim>\<open>RemoveCodeStuIdMappingCache\<close> change the cache (the
  contract lists them as the update and the removal, for asynchronous use only);
  \<^verbatim>\<open>IsKeyExist\<close> and \<^verbatim>\<open>GetCodeStuIdMappingCache\<close> only read it.
\<close>

fun is_cache_write :: "event \<Rightarrow> bool" where
  "is_cache_write (CacheSetUserFriend a b) = True"
| "is_cache_write (CacheRemoveCodeStuIdMapping k) = True"
| "is_cache_write _ = False"

fun is_cache_read :: "event \<Rightarrow> bool" where
  "is_cache_read (CacheIsKeyExist k) = True"
| "is_cache_read (CacheGetCodeStuIdMapping k) = True"
| "is_cache_read _ = False"


section \<open>The mocks of the test\<close>

text \<open>
  The fields of \<^verbatim>\<open>testCase\<close> in \<^verbatim>\<open>TestUserService_BindInvitation\<close> that the mocks read.
\<close>

record testCase =
  cacheExist :: bool
  cacheGetError :: "error option"
  cacheFriendId :: string
  dbRelationExist :: bool
  dbRelationError :: "error option"
  dbCreateError :: "error option"
  userConfined :: bool
  targetConfined :: bool
  userConfinedError :: "error option"
  targetConfinedErr :: "error option"
  goroutineError :: bool

text \<open>The service the test builds from a test case: each collaborator is its mock.\<close>

definition mocked :: "testCase \<Rightarrow> UserService" where
  "mocked tc =
    \<lparr>IsKeyExist = (\<lambda>key. cacheExist tc),
     GetCodeStuIdMappingCache = (\<lambda>key.
        case cacheGetError tc of Some e \<Rightarrow> ([], Some e) | None \<Rightarrow> (cacheFriendId tc, None)),
     GetRelationByUserId = (\<lambda>stuId friendId. (dbRelationExist tc, None, dbRelationError tc)),
     CreateRelation = (\<lambda>stuId friendId. dbCreateError tc),
     SetUserFriendCache = (\<lambda>stuId friendId.
        if goroutineError tc then Some (Errorf ''cache error'') else None),
     RemoveCodeStuIdMappingCache = (\<lambda>key.
        if goroutineError tc then Some (Errorf ''remove cache error'') else None),
     IsFriendNumsConfined = (\<lambda>stuId.
        if stuId = ''102300217'' then (userConfined tc, userConfinedError tc)
        else (targetConfined tc, targetConfinedErr tc))\<rparr>"

text \<open>A test case with every field at its Go zero value, as a struct literal starts.\<close>

definition zero_testCase :: testCase where
  "zero_testCase =
    \<lparr>cacheExist = False, cacheGetError = None, cacheFriendId = [],
     dbRelationExist = False, dbRelationError = None, dbCreateError = None,
     userConfined = False, targetConfined = False,
     userConfinedError = None, targetConfinedErr = None, goroutineError = False\<rparr>"

text \<open>
  \<^verbatim>\<open>gorm.ErrInvalidData\<close>, which two test cases return from the database mocks. It is
  declared outside the examined files; the test only needs it to be a non-nil error.
\<close>

definition ErrInvalidData :: error where
  "ErrInvalidData = Errorf ''unsupported data''"

text \<open>The rows of the test table, by their names.\<close>

definition tc_cache_not_exist :: testCase where
  "tc_cache_not_exist = zero_testCase\<lparr>cacheExist := False\<rparr>"

definition tc_cache_get_error :: testCase where
  "tc_cache_get_error =
     zero_testCase\<lparr>cacheExist := True, cacheGetError := Some (Errorf ''internal service error'')\<rparr>"

definition tc_add_self_as_friend :: testCase where
  "tc_add_self_as_friend = zero_testCase\<lparr>cacheExist := True, cacheFriendId := ''102300217''\<rparr>"

definition tc_relation_already_exist :: testCase where
  "tc_relation_already_exist =
     zero_testCase\<lparr>cacheExist := True, cacheFriendId := ''102300218'',
                   dbRelationExist := True, dbRelationError := None\<rparr>"

definition tc_db_relation_check_error :: testCase where
  "tc_db_relation_check_error =
     zero_testCase\<lparr>cacheExist := True, cacheFriendId := ''102300218'',
                   dbRelationExist := False, dbRelationError := Some ErrInvalidData\<rparr>"

definition tc_user_friend_list_full :: testCase where
  "tc_user_friend_list_full =
     zero_testCase\<lparr>cacheExist := True, cacheFriendId := ''102300218'',
                   dbRelationExist := False, dbRelationError := None, userConfined := True\<rparr>"

definition tc_target_friend_list_full :: testCase where
  "tc_target_friend_list_full =
     zero_testCase\<lparr>cacheExist := True, cacheFriendId := ''102300218'',
                   dbRelationExist := False, dbRelationError := None, targetConfined := True\<rparr>"

definition tc_db_create_error :: testCase where
  "tc_db_create_error =
     zero_testCase\<lparr>cacheExist := True, cacheFriendId := ''102300218'',
                   dbRelationExist := False, dbRelationError := None,
                   dbCreateError := Some ErrInvalidData\<rparr>"

definition tc_success :: testCase where
  "tc_success =
     zero_testCase\<lparr>cacheExist := True, cacheFriendId := ''102300218'',
                   dbRelationExist := False, dbRelationError := None, dbCreateError := None,
                   goroutineError := False\<rparr>"

text \<open>The successful row with the cache mocks of the goroutine set to fail.\<close>

definition tc_success_goroutine_error :: testCase where
  "tc_success_goroutine_error = tc_success\<lparr>goroutineError := True\<rparr>"


section \<open>The order of the checks, as the workflow describes it\<close>

text \<open>
  The steps in the order of the workflow description, written apart from the code:
  existence of the cache key, resolution of the mapping, the self-binding guard, the
  lookup of an existing relation, the creation of the relation. Each step is the calls it
  makes on the collaborators and the error it fails with, if it fails. The answers of
  the collaborators are functions of their arguments, so what a step would do is defined
  whether or not the run reaches it.
\<close>

definition ordered_checks ::
  "UserService \<Rightarrow> string \<Rightarrow> string \<Rightarrow> (event list \<times> error option) list" where
  "ordered_checks s stuId code =
    (let mapKey = ''code_mapping:'' @ code;
         friendId = fst (GetCodeStuIdMappingCache s mapKey)
     in [([CacheIsKeyExist mapKey],
            if IsKeyExist s mapKey then None else Some InvalidInvitationCode),
         ([CacheGetCodeStuIdMapping mapKey],
            map_option CacheLookupFailed (snd (GetCodeStuIdMappingCache s mapKey))),
         ([],
            if friendId = stuId then Some SelfBindingNotAllowed else None),
         ([DBGetRelationByUserId stuId friendId],
            case GetRelationByUserId s stuId friendId of (ok, rel, err) \<Rightarrow>
              (case err of
                 Some e \<Rightarrow> Some (RelationLookupFailed e)
               | None \<Rightarrow> if ok then Some RelationAlreadyExists else None)),
         ([DBCreateRelation stuId friendId],
            map_option RelationCreateFailed (CreateRelation s stuId friendId))])"

text \<open>
  Running steps in order and stopping at the first that fails: the calls of the steps up
  to and including that one, and its error; every step's calls and no error when none
  fails.
\<close>

fun short_circuit :: "(event list \<times> error option) list \<Rightarrow> event list \<times> error option" where
  "short_circuit [] = ([], None)"
| "short_circuit ((evs, Some e) # rest) = (evs, Some e)"
| "short_circuit ((evs, None) # rest) =
     (case short_circuit rest of (evs', r) \<Rightarrow> (evs @ evs', r))"


section \<open>The paths of BindInvitation\<close>

text \<open>One lemma for each return of the source: the whole outcome on that path.\<close>

lemma BindInvitation_absent:
  "\<not> IsKeyExist s (''code_mapping:'' @ code) \<Longrightarrow>
   BindInvitation s stuId code =
     \<lparr>ret = Some InvalidInvitationCode,
      calls = [CacheIsKeyExist (''code_mapping:'' @ code)], spawned = []\<rparr>"
  by (simp add: BindInvitation_def)

lemma BindInvitation_lookup_error:
  "IsKeyExist s (''code_mapping:'' @ code) \<Longrightarrow>
   GetCodeStuIdMappingCache s (''code_mapping:'' @ code) = (friendId, Some e) \<Longrightarrow>
   BindInvitation s stuId code =
     \<lparr>ret = Some (CacheLookupFailed e),
      calls = [CacheIsKeyExist (''code_mapping:'' @ code),
               CacheGetCodeStuIdMapping (''code_mapping:'' @ code)],
      spawned = []\<rparr>"
  by (simp add: BindInvitation_def Let_def)

lemma BindInvitation_self:
  "IsKeyExist s (''code_mapping:'' @ code) \<Longrightarrow>
   GetCodeStuIdMappingCache s (''code_mapping:'' @ code) = (stuId, None) \<Longrightarrow>
   BindInvitation s stuId code =
     \<lparr>ret = Some SelfBindingNotAllowed,
      calls = [CacheIsKeyExist (''code_mapping:'' @ code),
               CacheGetCodeStuIdMapping (''code_mapping:'' @ code)],
      spawned = []\<rparr>"
  by (simp add: BindInvitation_def Let_def)

lemma BindInvitation_relation_error:
  "IsKeyExist s (''code_mapping:'' @ code) \<Longrightarrow>
   GetCodeStuIdMappingCache s (''code_mapping:'' @ code) = (friendId, None) \<Longrightarrow>
   friendId \<noteq> stuId \<Longrightarrow>
   GetRelationByUserId s stuId friendId = (ok, rel, Some e) \<Longrightarrow>
   BindInvitation s stuId code =
     \<lparr>ret = Some (RelationLookupFailed e),
      calls = [CacheIsKeyExist (''code_mapping:'' @ code),
               CacheGetCodeStuIdMapping (''code_mapping:'' @ code),
               DBGetRelationByUserId stuId friendId],
      spawned = []\<rparr>"
  by (simp add: BindInvitation_def Let_def)

lemma BindInvitation_relation_exists:
  "IsKeyExist s (''code_mapping:'' @ code) \<Longrightarrow>
   GetCodeStuIdMappingCache s (''code_mapping:'' @ code) = (friendId, None) \<Longrightarrow>
   friendId \<noteq> stuId \<Longrightarrow>
   GetRelationByUserId s stuId friendId = (True, rel, None) \<Longrightarrow>
   BindInvitation s stuId code =
     \<lparr>ret = Some RelationAlreadyExists,
      calls = [CacheIsKeyExist (''code_mapping:'' @ code),
               CacheGetCodeStuIdMapping (''code_mapping:'' @ code),
               DBGetRelationByUserId stuId friendId],
      spawned = []\<rparr>"
  by (simp add: BindInvitation_def Let_def)

lemma BindInvitation_create_error:
  "IsKeyExist s (''code_mapping:'' @ code) \<Longrightarrow>
   GetCodeStuIdMappingCache s (''code_mapping:'' @ code) = (friendId, None) \<Longrightarrow>
   friendId \<noteq> stuId \<Longrightarrow>
   GetRelationByUserId s stuId friendId = (False, rel, None) \<Longrightarrow>
   CreateRelation s stuId friendId = Some e \<Longrightarrow>
   BindInvitation s stuId code =
     \<lparr>ret = Some (RelationCreateFailed e),
      calls = [CacheIsKeyExist (''code_mapping:'' @ code),
               CacheGetCodeStuIdMapping (''code_mapping:'' @ code),
               DBGetRelationByUserId stuId friendId,
               DBCreateRelation stuId friendId],
      spawned = []\<rparr>"
  by (simp add: BindInvitation_def Let_def)

lemma BindInvitation_success:
  "IsKeyExist s (''code_mapping:'' @ code) \<Longrightarrow>
   GetCodeStuIdMappingCache s (''code_mapping:'' @ code) = (friendId, None) \<Longrightarrow>
   friendId \<noteq> stuId \<Longrightarrow>
   GetRelationByUserId s stuId friendId = (False, rel, None) \<Longrightarrow>
   CreateRelation s stuId friendId = None \<Longrightarrow>
   BindInvitation s stuId code =
     \<lparr>ret = None,
      calls = [CacheIsKeyExist (''code_mapping:'' @ code),
               CacheGetCodeStuIdMapping (''code_mapping:'' @ code),
               DBGetRelationByUserId stuId friendId,
               DBCreateRelation stuId friendId],
      spawned = [BindInvitation_func1 friendId stuId]\<rparr>"
  by (simp add: BindInvitation_def Let_def)

text \<open>The goroutine makes one call, and logs one line exactly when that call fails.\<close>

lemma run_goroutine_calls:
  "run_goroutine s (BindInvitation_func1 friendId stuId) =
     CacheSetUserFriend friendId stuId #
       (case SetUserFriendCache s friendId stuId of
          Some e \<Rightarrow> [LoggerErrorf (''service. SetUserFriendCache: '' @ Error_msg e)]
        | None \<Rightarrow> [])"
  by (simp add: Let_def split: option.splits)


section \<open>General facts about a run\<close>

lemma BindInvitation_refines_ordered_checks:
  "short_circuit (ordered_checks s stuId code)
     = (calls (BindInvitation s stuId code), ret (BindInvitation s stuId code))"
  by (simp add: ordered_checks_def BindInvitation_def Let_def split: prod.splits option.splits)

lemma spawned_only_on_success:
  "ret (BindInvitation s stuId code) \<noteq> None \<Longrightarrow> spawned (BindInvitation s stuId code) = []"
  by (simp add: BindInvitation_def Let_def split: prod.splits option.splits if_splits)

text \<open>What the steps run in order return is the error of the first step that fails.\<close>

lemma short_circuit_error:
  "snd (short_circuit xs) =
     (case dropWhile (\<lambda>x. snd x = None) xs of [] \<Rightarrow> None | x # rest \<Rightarrow> snd x)"
  by (induction xs rule: short_circuit.induct) (auto split: prod.splits)

lemma short_circuit_calls:
  "fst (short_circuit xs) =
     concat (map fst (takeWhile (\<lambda>x. snd x = None) xs)) @
     (case dropWhile (\<lambda>x. snd x = None) xs of [] \<Rightarrow> [] | x # rest \<Rightarrow> fst x)"
  by (induction xs rule: short_circuit.induct) (auto split: prod.splits)

lemma calls_never_write_cache:
  "e \<in> set (calls (BindInvitation s stuId code)) \<Longrightarrow> \<not> is_cache_write e"
  by (auto simp add: BindInvitation_def Let_def split: prod.splits option.splits if_splits)

lemma calls_cache_reads:
  "e \<in> set (calls (BindInvitation s stuId code)) \<Longrightarrow> is_cache_read e \<Longrightarrow>
   e = CacheIsKeyExist (''code_mapping:'' @ code) \<or>
   e = CacheGetCodeStuIdMapping (''code_mapping:'' @ code)"
  by (auto simp add: BindInvitation_def Let_def split: prod.splits option.splits if_splits)

lemma background_after_create:
  "e \<in> set (background s (BindInvitation s stuId code)) \<Longrightarrow> is_cache_write e \<Longrightarrow>
   e = CacheSetUserFriend (fst (GetCodeStuIdMappingCache s (''code_mapping:'' @ code))) stuId
   \<and> ret (BindInvitation s stuId code) = None
   \<and> last (calls (BindInvitation s stuId code))
       = DBCreateRelation stuId (fst (GetCodeStuIdMappingCache s (''code_mapping:'' @ code)))
   \<and> CreateRelation s stuId (fst (GetCodeStuIdMappingCache s (''code_mapping:'' @ code))) = None"
  by (auto simp add: BindInvitation_def background_def Let_def
           split: prod.splits option.splits if_splits)

lemma BindInvitation_only_synchronous_collaborators:
  assumes "IsKeyExist s' = IsKeyExist s"
      and "GetCodeStuIdMappingCache s' = GetCodeStuIdMappingCache s"
      and "GetRelationByUserId s' = GetRelationByUserId s"
      and "CreateRelation s' = CreateRelation s"
  shows "BindInvitation s' stuId code = BindInvitation s stuId code"
  unfolding BindInvitation_def assms by (rule refl)

text \<open>
  Neither \<^verbatim>\<open>IsFriendNumsConfined\<close> nor \<^verbatim>\<open>RemoveCodeStuIdMappingCache\<close> is called by
  \<^verbatim>\<open>BindInvitation\<close> or by its goroutine: the outcome does not depend on them, and no run
  holds a call of either.
\<close>

lemma BindInvitation_ignores_confinement:
  "BindInvitation (s\<lparr>IsFriendNumsConfined := f\<rparr>) stuId code = BindInvitation s stuId code"
  by (rule BindInvitation_only_synchronous_collaborators) simp_all

lemma never_checks_confinement:
  "ConfinedCheck u \<notin> set (all_calls s (BindInvitation s stuId code))"
  by (auto simp add: BindInvitation_def all_calls_def background_def Let_def
           split: prod.splits option.splits if_splits)

lemma never_removes_mapping:
  "CacheRemoveCodeStuIdMapping k \<notin> set (all_calls s (BindInvitation s stuId code))"
  by (auto simp add: BindInvitation_def all_calls_def background_def Let_def
           split: prod.splits option.splits if_splits)


section \<open>Friend-list capacity\<close>

text \<open>
  C1. The claim: when the code exists, resolves to an inviter other than the requester
  and no relation exists yet, a party whose friend list is full
  (\<^verbatim>\<open>IsFriendNumsConfined\<close> answers true) makes \<^verbatim>\<open>BindInvitation\<close> fail with
  FriendListFull, without \<^verbatim>\<open>CreateRelation\<close>. The code at the two rows of the test
  table that say so, "user friend list full" and "target friend list full": the
  confined party is reported as confined by the mock, and the call returns no error,
  after calling \<^verbatim>\<open>CreateRelation\<close> and starting the goroutine.
\<close>

theorem C1_confined_party_is_bound_all_the_same:
  "fst (IsFriendNumsConfined (mocked tc_user_friend_list_full) ''102300217'')
 \<and> BindInvitation (mocked tc_user_friend_list_full) ''102300217'' ''ABCDEF'' =
     \<lparr>ret = None,
      calls = [CacheIsKeyExist ''code_mapping:ABCDEF'',
               CacheGetCodeStuIdMapping ''code_mapping:ABCDEF'',
               DBGetRelationByUserId ''102300217'' ''102300218'',
               DBCreateRelation ''102300217'' ''102300218''],
      spawned = [BindInvitation_func1 ''102300218'' ''102300217'']\<rparr>
 \<and> fst (IsFriendNumsConfined (mocked tc_target_friend_list_full) ''102300218'')
 \<and> BindInvitation (mocked tc_target_friend_list_full) ''102300217'' ''ABCDEF'' =
     \<lparr>ret = None,
      calls = [CacheIsKeyExist ''code_mapping:ABCDEF'',
               CacheGetCodeStuIdMapping ''code_mapping:ABCDEF'',
               DBGetRelationByUserId ''102300217'' ''102300218'',
               DBCreateRelation ''102300217'' ''102300218''],
      spawned = [BindInvitation_func1 ''102300218'' ''102300217'']\<rparr>"
  by (simp add: BindInvitation_def Let_def mocked_def zero_testCase_def
        tc_user_friend_list_full_def tc_target_friend_list_full_def)


section \<open>The consumed invitation code\<close>

text \<open>
  C2. The claim: after a successful call the background task removes the mapping of the
  consumed code, by one call of \<^verbatim>\<open>RemoveCodeStuIdMappingCache\<close> with the key
  \<^verbatim>\<open>code_mapping:\<close> followed by the code. The code at the successful row of the test
  table: the call returns no error, the whole run, background included, is the five
  calls below, and the removal of \<^verbatim>\<open>code_mapping:ABCDEF\<close> is not among them.
\<close>

theorem C2_successful_bind_leaves_the_mapping:
  "ret (BindInvitation (mocked tc_success) ''102300217'' ''ABCDEF'') = None
 \<and> all_calls (mocked tc_success) (BindInvitation (mocked tc_success) ''102300217'' ''ABCDEF'') =
     [CacheIsKeyExist ''code_mapping:ABCDEF'',
      CacheGetCodeStuIdMapping ''code_mapping:ABCDEF'',
      DBGetRelationByUserId ''102300217'' ''102300218'',
      DBCreateRelation ''102300217'' ''102300218'',
      CacheSetUserFriend ''102300218'' ''102300217'']
 \<and> CacheRemoveCodeStuIdMapping ''code_mapping:ABCDEF''
      \<notin> set (all_calls (mocked tc_success)
                (BindInvitation (mocked tc_success) ''102300217'' ''ABCDEF''))"
  by (simp add: BindInvitation_def all_calls_def background_def Let_def mocked_def
        zero_testCase_def tc_success_def)


section \<open>A successful bind\<close>

text \<open>
  C3. When the code is present and resolves without error to an inviter other than the
  requester, no relation exists yet and \<^verbatim>\<open>CreateRelation\<close> succeeds, then
  \<^verbatim>\<open>BindInvitation\<close> returns no error; the whole run holds exactly one call of
  \<^verbatim>\<open>CreateRelation\<close>, with the requester first and the friend second; and the return
  does not wait for the cache update: at the return the goroutine is started and not
  run, no call before the return writes the cache, and the update
  \<^verbatim>\<open>SetUserFriendCache(friendId, stuId)\<close> is a call of the background.
\<close>

theorem C3_success_creates_once_and_returns:
  assumes "IsKeyExist s (''code_mapping:'' @ code)"
      and "GetCodeStuIdMappingCache s (''code_mapping:'' @ code) = (friendId, None)"
      and "friendId \<noteq> stuId"
      and "GetRelationByUserId s stuId friendId = (False, rel, None)"
      and "CreateRelation s stuId friendId = None"
  shows "ret (BindInvitation s stuId code) = None
       \<and> filter is_CreateRelation (all_calls s (BindInvitation s stuId code))
           = [DBCreateRelation stuId friendId]
       \<and> spawned (BindInvitation s stuId code) = [BindInvitation_func1 friendId stuId]
       \<and> (\<forall>e \<in> set (calls (BindInvitation s stuId code)). \<not> is_cache_write e)
       \<and> CacheSetUserFriend friendId stuId \<in> set (background s (BindInvitation s stuId code))"
  using BindInvitation_success [OF assms]
  by (simp add: all_calls_def background_def Let_def split: option.splits)

theorem C3_witness:
  "IsKeyExist (mocked tc_success) (''code_mapping:'' @ ''ABCDEF'')
 \<and> GetCodeStuIdMappingCache (mocked tc_success) (''code_mapping:'' @ ''ABCDEF'')
      = (''102300218'', None)
 \<and> ''102300218'' \<noteq> ''102300217''
 \<and> GetRelationByUserId (mocked tc_success) ''102300217'' ''102300218'' = (False, None, None)
 \<and> CreateRelation (mocked tc_success) ''102300217'' ''102300218'' = None
 \<and> ret (BindInvitation (mocked tc_success) ''102300217'' ''ABCDEF'') = None
 \<and> filter is_CreateRelation
      (all_calls (mocked tc_success) (BindInvitation (mocked tc_success) ''102300217'' ''ABCDEF''))
      = [DBCreateRelation ''102300217'' ''102300218'']"
proof -
  let ?s = "mocked tc_success"
  have h1: "IsKeyExist ?s (''code_mapping:'' @ ''ABCDEF'')"
    by (simp add: mocked_def zero_testCase_def tc_success_def)
  have h2: "GetCodeStuIdMappingCache ?s (''code_mapping:'' @ ''ABCDEF'') = (''102300218'', None)"
    by (simp add: mocked_def zero_testCase_def tc_success_def)
  have h3: "''102300218'' \<noteq> ''102300217''" by simp
  have h4: "GetRelationByUserId ?s ''102300217'' ''102300218'' = (False, None, None)"
    by (simp add: mocked_def zero_testCase_def tc_success_def)
  have h5: "CreateRelation ?s ''102300217'' ''102300218'' = None"
    by (simp add: mocked_def zero_testCase_def tc_success_def)
  from C3_success_creates_once_and_returns [OF h1 h2 h3 h4 h5] h1 h2 h3 h4 h5
  show ?thesis by blast
qed


section \<open>An absent invitation code\<close>

text \<open>
  C4. When the key derived from the invitation code is not in the cache
  (\<^verbatim>\<open>IsKeyExist\<close> answers false), \<^verbatim>\<open>BindInvitation\<close> returns the error
  InvalidInvitationCode, and the existence check is the only call of the whole run,
  background included: no \<^verbatim>\<open>CreateRelation\<close>, no \<^verbatim>\<open>GetRelationByUserId\<close> and no
  resolution of the mapping is made.
\<close>

theorem C4_absent_code_invalid_no_store_access:
  assumes "\<not> IsKeyExist s (''code_mapping:'' @ code)"
  shows "ret (BindInvitation s stuId code) = Some InvalidInvitationCode
       \<and> all_calls s (BindInvitation s stuId code) = [CacheIsKeyExist (''code_mapping:'' @ code)]
       \<and> (\<forall>e \<in> set (all_calls s (BindInvitation s stuId code)).
            \<not> is_CreateRelation e \<and> \<not> is_GetRelationByUserId e \<and> \<not> is_GetCodeStuIdMapping e
            \<and> \<not> is_store_call e \<and> \<not> is_cache_write e)"
  using BindInvitation_absent [OF assms, of stuId]
  by (simp add: all_calls_def background_def)

theorem C4_witness:
  "\<not> IsKeyExist (mocked tc_cache_not_exist) (''code_mapping:'' @ ''ABCDEF'')
   \<and> ret (BindInvitation (mocked tc_cache_not_exist) ''102300217'' ''ABCDEF'')
       = Some InvalidInvitationCode
   \<and> all_calls (mocked tc_cache_not_exist) (BindInvitation (mocked tc_cache_not_exist) ''102300217'' ''ABCDEF'')
       = [CacheIsKeyExist ''code_mapping:ABCDEF'']"
proof -
  have h: "\<not> IsKeyExist (mocked tc_cache_not_exist) (''code_mapping:'' @ ''ABCDEF'')"
    by (simp add: mocked_def zero_testCase_def tc_cache_not_exist_def)
  show ?thesis
    using h C4_absent_code_invalid_no_store_access [OF h, of "''102300217''"] by simp
qed


section \<open>Binding to oneself\<close>

text \<open>
  C5. When the code exists and resolves to the requester's own identifier,
  \<^verbatim>\<open>BindInvitation\<close> returns the error SelfBindingNotAllowed whatever the relationship
  store would answer (its two methods are replaced by arbitrary ones), and the run makes
  no call on the store: neither \<^verbatim>\<open>GetRelationByUserId\<close> nor \<^verbatim>\<open>CreateRelation\<close>.
\<close>

theorem C5_self_binding_rejected_no_store_calls:
  assumes "IsKeyExist s (''code_mapping:'' @ code)"
      and "GetCodeStuIdMappingCache s (''code_mapping:'' @ code) = (stuId, None)"
  shows "ret (BindInvitation (s\<lparr>GetRelationByUserId := g, CreateRelation := c\<rparr>) stuId code)
           = Some SelfBindingNotAllowed
       \<and> (\<forall>e \<in> set (all_calls (s\<lparr>GetRelationByUserId := g, CreateRelation := c\<rparr>)
                     (BindInvitation (s\<lparr>GetRelationByUserId := g, CreateRelation := c\<rparr>) stuId code)).
            \<not> is_store_call e)"
proof -
  let ?s = "s\<lparr>GetRelationByUserId := g, CreateRelation := c\<rparr>"
  have "IsKeyExist ?s (''code_mapping:'' @ code)"
   and "GetCodeStuIdMappingCache ?s (''code_mapping:'' @ code) = (stuId, None)"
    using assms by simp_all
  from BindInvitation_self [OF this] show ?thesis
    by (simp add: all_calls_def background_def)
qed

theorem C5_witness:
  "IsKeyExist (mocked tc_add_self_as_friend) (''code_mapping:'' @ ''ABCDEF'')
 \<and> GetCodeStuIdMappingCache (mocked tc_add_self_as_friend) (''code_mapping:'' @ ''ABCDEF'')
      = (''102300217'', None)
 \<and> ret (BindInvitation
      (mocked tc_add_self_as_friend
         \<lparr>GetRelationByUserId := (\<lambda>a b. (True, None, Some ErrInvalidData)),
          CreateRelation := (\<lambda>a b. Some ErrInvalidData)\<rparr>) ''102300217'' ''ABCDEF'')
      = Some SelfBindingNotAllowed"
proof -
  let ?s = "mocked tc_add_self_as_friend"
  have h1: "IsKeyExist ?s (''code_mapping:'' @ ''ABCDEF'')"
    by (simp add: mocked_def zero_testCase_def tc_add_self_as_friend_def)
  have h2: "GetCodeStuIdMappingCache ?s (''code_mapping:'' @ ''ABCDEF'') = (''102300217'', None)"
    by (simp add: mocked_def zero_testCase_def tc_add_self_as_friend_def)
  from C5_self_binding_rejected_no_store_calls [OF h1 h2] h1 h2
  show ?thesis by blast
qed


section \<open>An existing relation\<close>

text \<open>
  C6. When the code exists and resolves to an inviter other than the requester, and the
  store answers, without error, that the relation between the requester and that friend
  exists, \<^verbatim>\<open>BindInvitation\<close> returns the error RelationAlreadyExists and the run holds no
  call of \<^verbatim>\<open>CreateRelation\<close>.
\<close>

theorem C6_existing_relation_rejected_no_create:
  assumes "IsKeyExist s (''code_mapping:'' @ code)"
      and "GetCodeStuIdMappingCache s (''code_mapping:'' @ code) = (friendId, None)"
      and "friendId \<noteq> stuId"
      and "GetRelationByUserId s stuId friendId = (True, rel, None)"
  shows "ret (BindInvitation s stuId code) = Some RelationAlreadyExists
       \<and> (\<forall>e \<in> set (all_calls s (BindInvitation s stuId code)). \<not> is_CreateRelation e)"
  using BindInvitation_relation_exists [OF assms]
  by (simp add: all_calls_def background_def)

theorem C6_witness:
  "IsKeyExist (mocked tc_relation_already_exist) (''code_mapping:'' @ ''ABCDEF'')
 \<and> GetCodeStuIdMappingCache (mocked tc_relation_already_exist) (''code_mapping:'' @ ''ABCDEF'')
      = (''102300218'', None)
 \<and> ''102300218'' \<noteq> ''102300217''
 \<and> GetRelationByUserId (mocked tc_relation_already_exist) ''102300217'' ''102300218''
      = (True, None, None)
 \<and> ret (BindInvitation (mocked tc_relation_already_exist) ''102300217'' ''ABCDEF'')
      = Some RelationAlreadyExists"
proof -
  let ?s = "mocked tc_relation_already_exist"
  have h1: "IsKeyExist ?s (''code_mapping:'' @ ''ABCDEF'')"
    by (simp add: mocked_def zero_testCase_def tc_relation_already_exist_def)
  have h2: "GetCodeStuIdMappingCache ?s (''code_mapping:'' @ ''ABCDEF'') = (''102300218'', None)"
    by (simp add: mocked_def zero_testCase_def tc_relation_already_exist_def)
  have h3: "''102300218'' \<noteq> ''102300217''" by simp
  have h4: "GetRelationByUserId ?s ''102300217'' ''102300218'' = (True, None, None)"
    by (simp add: mocked_def zero_testCase_def tc_relation_already_exist_def)
  from C6_existing_relation_rejected_no_create [OF h1 h2 h3 h4] h1 h2 h3 h4
  show ?thesis by blast
qed


section \<open>The return value and the background\<close>

text \<open>
  C7. Two executions whose collaborators answer alike on the synchronous path
  (\<^verbatim>\<open>IsKeyExist\<close>, \<^verbatim>\<open>GetCodeStuIdMappingCache\<close>, \<^verbatim>\<open>GetRelationByUserId\<close>,
  \<^verbatim>\<open>CreateRelation\<close>) and that reach a successful \<^verbatim>\<open>CreateRelation\<close> both return no
  error and make the same calls before returning, whatever the cache operations of the
  background answer in either of them.
\<close>

theorem C7_return_independent_of_background:
  assumes "IsKeyExist s' = IsKeyExist s"
      and "GetCodeStuIdMappingCache s' = GetCodeStuIdMappingCache s"
      and "GetRelationByUserId s' = GetRelationByUserId s"
      and "CreateRelation s' = CreateRelation s"
      and "DBCreateRelation a b \<in> set (calls (BindInvitation s stuId code))"
      and "CreateRelation s a b = None"
  shows "ret (BindInvitation s stuId code) = None
       \<and> ret (BindInvitation s' stuId code) = None
       \<and> calls (BindInvitation s' stuId code) = calls (BindInvitation s stuId code)"
proof -
  have same: "BindInvitation s' stuId code = BindInvitation s stuId code"
    using assms(1-4) by (rule BindInvitation_only_synchronous_collaborators)
  have "ret (BindInvitation s stuId code) = None"
    using assms(5,6)
    by (auto simp add: BindInvitation_def Let_def split: prod.splits option.splits if_splits)
  then show ?thesis by (simp add: same)
qed

theorem C7_witness:
  "IsKeyExist (mocked tc_success_goroutine_error) = IsKeyExist (mocked tc_success)
 \<and> GetCodeStuIdMappingCache (mocked tc_success_goroutine_error)
      = GetCodeStuIdMappingCache (mocked tc_success)
 \<and> GetRelationByUserId (mocked tc_success_goroutine_error) = GetRelationByUserId (mocked tc_success)
 \<and> CreateRelation (mocked tc_success_goroutine_error) = CreateRelation (mocked tc_success)
 \<and> DBCreateRelation ''102300217'' ''102300218''
      \<in> set (calls (BindInvitation (mocked tc_success) ''102300217'' ''ABCDEF''))
 \<and> CreateRelation (mocked tc_success) ''102300217'' ''102300218'' = None
 \<and> SetUserFriendCache (mocked tc_success) ''102300218'' ''102300217'' = None
 \<and> SetUserFriendCache (mocked tc_success_goroutine_error) ''102300218'' ''102300217''
      = Some (Errorf ''cache error'')
 \<and> background (mocked tc_success_goroutine_error)
      (BindInvitation (mocked tc_success_goroutine_error) ''102300217'' ''ABCDEF'')
    \<noteq> background (mocked tc_success) (BindInvitation (mocked tc_success) ''102300217'' ''ABCDEF'')
 \<and> ret (BindInvitation (mocked tc_success) ''102300217'' ''ABCDEF'') = None
 \<and> ret (BindInvitation (mocked tc_success_goroutine_error) ''102300217'' ''ABCDEF'') = None"
proof -
  let ?s = "mocked tc_success" and ?s' = "mocked tc_success_goroutine_error"
  have a: "IsKeyExist ?s' = IsKeyExist ?s"
    "GetCodeStuIdMappingCache ?s' = GetCodeStuIdMappingCache ?s"
    "GetRelationByUserId ?s' = GetRelationByUserId ?s"
    "CreateRelation ?s' = CreateRelation ?s"
    by (simp_all add: mocked_def zero_testCase_def tc_success_def tc_success_goroutine_error_def)
  have o: "BindInvitation ?s ''102300217'' ''ABCDEF'' =
      \<lparr>ret = None,
       calls = [CacheIsKeyExist ''code_mapping:ABCDEF'',
          CacheGetCodeStuIdMapping ''code_mapping:ABCDEF'',
          DBGetRelationByUserId ''102300217'' ''102300218'',
          DBCreateRelation ''102300217'' ''102300218''],
       spawned = [BindInvitation_func1 ''102300218'' ''102300217'']\<rparr>"
    by (simp add: BindInvitation_def Let_def mocked_def zero_testCase_def tc_success_def)
  have o': "BindInvitation ?s' ''102300217'' ''ABCDEF'' = BindInvitation ?s ''102300217'' ''ABCDEF''"
    using a by (rule BindInvitation_only_synchronous_collaborators)
  have c: "DBCreateRelation ''102300217'' ''102300218''
      \<in> set (calls (BindInvitation ?s ''102300217'' ''ABCDEF''))"
    by (simp add: o)
  have n: "CreateRelation ?s ''102300217'' ''102300218'' = None"
    by (simp add: mocked_def zero_testCase_def tc_success_def)
  have bg: "SetUserFriendCache ?s ''102300218'' ''102300217'' = None"
    "SetUserFriendCache ?s' ''102300218'' ''102300217'' = Some (Errorf ''cache error'')"
    by (simp_all add: mocked_def zero_testCase_def tc_success_def tc_success_goroutine_error_def)
  have d: "background ?s' (BindInvitation ?s' ''102300217'' ''ABCDEF'')
           \<noteq> background ?s (BindInvitation ?s ''102300217'' ''ABCDEF'')"
    by (simp add: o' o background_def bg)
  show ?thesis
    using a c n bg d C7_return_independent_of_background [OF a c n] by simp
qed


section \<open>Errors of the collaborators\<close>

text \<open>
  C8. An error of a collaborator on the synchronous path is returned wrapped, with the
  cause kept: an error of the mapping resolution as CacheLookupFailed, an error of the
  relation lookup as RelationLookupFailed, an error of the relation creation as
  RelationCreateFailed. In each case the returned error is exactly that wrapping, and
  unwrapping it gives back the collaborator's error.
\<close>

theorem C8_collaborator_errors_wrapped:
  "(IsKeyExist s (''code_mapping:'' @ code) \<and>
    GetCodeStuIdMappingCache s (''code_mapping:'' @ code) = (friendId, Some e)
      \<longrightarrow> ret (BindInvitation s stuId code) = Some (CacheLookupFailed e)
        \<and> Option.bind (ret (BindInvitation s stuId code)) Unwrap = Some e)
 \<and> (IsKeyExist s (''code_mapping:'' @ code) \<and>
    GetCodeStuIdMappingCache s (''code_mapping:'' @ code) = (friendId, None) \<and>
    friendId \<noteq> stuId \<and>
    GetRelationByUserId s stuId friendId = (ok, rel, Some e)
      \<longrightarrow> ret (BindInvitation s stuId code) = Some (RelationLookupFailed e)
        \<and> Option.bind (ret (BindInvitation s stuId code)) Unwrap = Some e)
 \<and> (IsKeyExist s (''code_mapping:'' @ code) \<and>
    GetCodeStuIdMappingCache s (''code_mapping:'' @ code) = (friendId, None) \<and>
    friendId \<noteq> stuId \<and>
    GetRelationByUserId s stuId friendId = (False, rel, None) \<and>
    CreateRelation s stuId friendId = Some e
      \<longrightarrow> ret (BindInvitation s stuId code) = Some (RelationCreateFailed e)
        \<and> Option.bind (ret (BindInvitation s stuId code)) Unwrap = Some e)"
proof (intro conjI impI)
  assume h: "IsKeyExist s (''code_mapping:'' @ code) \<and>
    GetCodeStuIdMappingCache s (''code_mapping:'' @ code) = (friendId, Some e)"
  then have o: "ret (BindInvitation s stuId code) = Some (CacheLookupFailed e)"
    using BindInvitation_lookup_error [of s code friendId e stuId] by simp
  show "ret (BindInvitation s stuId code) = Some (CacheLookupFailed e)" by (rule o)
  show "Option.bind (ret (BindInvitation s stuId code)) Unwrap = Some e" by (simp add: o)
next
  assume h: "IsKeyExist s (''code_mapping:'' @ code) \<and>
    GetCodeStuIdMappingCache s (''code_mapping:'' @ code) = (friendId, None) \<and>
    friendId \<noteq> stuId \<and>
    GetRelationByUserId s stuId friendId = (ok, rel, Some e)"
  then have o: "ret (BindInvitation s stuId code) = Some (RelationLookupFailed e)"
    using BindInvitation_relation_error [of s code friendId stuId ok rel e] by simp
  show "ret (BindInvitation s stuId code) = Some (RelationLookupFailed e)" by (rule o)
  show "Option.bind (ret (BindInvitation s stuId code)) Unwrap = Some e" by (simp add: o)
next
  assume h: "IsKeyExist s (''code_mapping:'' @ code) \<and>
    GetCodeStuIdMappingCache s (''code_mapping:'' @ code) = (friendId, None) \<and>
    friendId \<noteq> stuId \<and>
    GetRelationByUserId s stuId friendId = (False, rel, None) \<and>
    CreateRelation s stuId friendId = Some e"
  then have o: "ret (BindInvitation s stuId code) = Some (RelationCreateFailed e)"
    using BindInvitation_create_error [of s code friendId stuId rel e] by simp
  show "ret (BindInvitation s stuId code) = Some (RelationCreateFailed e)" by (rule o)
  show "Option.bind (ret (BindInvitation s stuId code)) Unwrap = Some e" by (simp add: o)
qed

theorem C8_witness:
  "(IsKeyExist (mocked tc_cache_get_error) (''code_mapping:'' @ ''ABCDEF'')
    \<and> GetCodeStuIdMappingCache (mocked tc_cache_get_error) (''code_mapping:'' @ ''ABCDEF'')
         = ([], Some (Errorf ''internal service error''))
    \<and> ret (BindInvitation (mocked tc_cache_get_error) ''102300217'' ''ABCDEF'')
         = Some (CacheLookupFailed (Errorf ''internal service error'')))
 \<and> (IsKeyExist (mocked tc_db_relation_check_error) (''code_mapping:'' @ ''ABCDEF'')
    \<and> GetCodeStuIdMappingCache (mocked tc_db_relation_check_error) (''code_mapping:'' @ ''ABCDEF'')
         = (''102300218'', None)
    \<and> ''102300218'' \<noteq> ''102300217''
    \<and> GetRelationByUserId (mocked tc_db_relation_check_error) ''102300217'' ''102300218''
         = (False, None, Some ErrInvalidData)
    \<and> ret (BindInvitation (mocked tc_db_relation_check_error) ''102300217'' ''ABCDEF'')
         = Some (RelationLookupFailed ErrInvalidData))
 \<and> (IsKeyExist (mocked tc_db_create_error) (''code_mapping:'' @ ''ABCDEF'')
    \<and> GetCodeStuIdMappingCache (mocked tc_db_create_error) (''code_mapping:'' @ ''ABCDEF'')
         = (''102300218'', None)
    \<and> ''102300218'' \<noteq> ''102300217''
    \<and> GetRelationByUserId (mocked tc_db_create_error) ''102300217'' ''102300218''
         = (False, None, None)
    \<and> CreateRelation (mocked tc_db_create_error) ''102300217'' ''102300218''
         = Some ErrInvalidData
    \<and> ret (BindInvitation (mocked tc_db_create_error) ''102300217'' ''ABCDEF'')
         = Some (RelationCreateFailed ErrInvalidData))"
proof -
  let ?a = "mocked tc_cache_get_error"
  let ?b = "mocked tc_db_relation_check_error"
  let ?c = "mocked tc_db_create_error"
  have a: "IsKeyExist ?a (''code_mapping:'' @ ''ABCDEF'')
    \<and> GetCodeStuIdMappingCache ?a (''code_mapping:'' @ ''ABCDEF'')
         = ([], Some (Errorf ''internal service error''))"
    by (simp add: mocked_def zero_testCase_def tc_cache_get_error_def)
  have b: "IsKeyExist ?b (''code_mapping:'' @ ''ABCDEF'')
    \<and> GetCodeStuIdMappingCache ?b (''code_mapping:'' @ ''ABCDEF'') = (''102300218'', None)
    \<and> ''102300218'' \<noteq> ''102300217''
    \<and> GetRelationByUserId ?b ''102300217'' ''102300218'' = (False, None, Some ErrInvalidData)"
    by (simp add: mocked_def zero_testCase_def tc_db_relation_check_error_def)
  have c: "IsKeyExist ?c (''code_mapping:'' @ ''ABCDEF'')
    \<and> GetCodeStuIdMappingCache ?c (''code_mapping:'' @ ''ABCDEF'') = (''102300218'', None)
    \<and> ''102300218'' \<noteq> ''102300217''
    \<and> GetRelationByUserId ?c ''102300217'' ''102300218'' = (False, None, None)
    \<and> CreateRelation ?c ''102300217'' ''102300218'' = Some ErrInvalidData"
    by (simp add: mocked_def zero_testCase_def tc_db_create_error_def)
  have ra: "ret (BindInvitation ?a ''102300217'' ''ABCDEF'')
         = Some (CacheLookupFailed (Errorf ''internal service error''))"
    using a C8_collaborator_errors_wrapped
      [of ?a "''ABCDEF''" "[]" "Errorf ''internal service error''" "''102300217''"]
    by blast
  have rb: "ret (BindInvitation ?b ''102300217'' ''ABCDEF'')
         = Some (RelationLookupFailed ErrInvalidData)"
    using b C8_collaborator_errors_wrapped
      [of ?b "''ABCDEF''" "''102300218''" ErrInvalidData "''102300217''" False None]
    by blast
  have rc: "ret (BindInvitation ?c ''102300217'' ''ABCDEF'')
         = Some (RelationCreateFailed ErrInvalidData)"
    using c C8_collaborator_errors_wrapped
      [of ?c "''ABCDEF''" "''102300218''" ErrInvalidData "''102300217''" _ None]
    by blast
  show ?thesis using a b c ra rb rc by blast
qed


section \<open>The order of the checks\<close>

text \<open>
  C9. \<^verbatim>\<open>BindInvitation\<close> runs the steps in the order key existence, mapping resolution,
  self-binding guard, relation lookup, relation creation, and stops at the first that
  fails: its calls and its result are those of running \<open>ordered_checks\<close> with
  \<open>short_circuit\<close>. So the returned error is the error of the earliest failing step, the
  calls are those of the steps up to and including that step, no goroutine runs after
  a failure, and an absent code gives InvalidInvitationCode even when the code would
  resolve to the requester.
\<close>

theorem C9_checks_in_order_short_circuit:
  "short_circuit (ordered_checks s stuId code)
     = (calls (BindInvitation s stuId code), ret (BindInvitation s stuId code))
 \<and> ret (BindInvitation s stuId code) =
     (case dropWhile (\<lambda>x. snd x = None) (ordered_checks s stuId code) of
        [] \<Rightarrow> None | x # rest \<Rightarrow> snd x)
 \<and> calls (BindInvitation s stuId code) =
     concat (map fst (takeWhile (\<lambda>x. snd x = None) (ordered_checks s stuId code))) @
     (case dropWhile (\<lambda>x. snd x = None) (ordered_checks s stuId code) of
        [] \<Rightarrow> [] | x # rest \<Rightarrow> fst x)
 \<and> (ret (BindInvitation s stuId code) \<noteq> None \<longrightarrow>
      background s (BindInvitation s stuId code) = [])
 \<and> (\<not> IsKeyExist s (''code_mapping:'' @ code) \<and>
      GetCodeStuIdMappingCache s (''code_mapping:'' @ code) = (stuId, None) \<longrightarrow>
      ret (BindInvitation s stuId code) = Some InvalidInvitationCode)"
proof (intro conjI impI)
  show r: "short_circuit (ordered_checks s stuId code)
     = (calls (BindInvitation s stuId code), ret (BindInvitation s stuId code))"
    by (rule BindInvitation_refines_ordered_checks)
  show "ret (BindInvitation s stuId code) =
     (case dropWhile (\<lambda>x. snd x = None) (ordered_checks s stuId code) of
        [] \<Rightarrow> None | x # rest \<Rightarrow> snd x)"
    using short_circuit_error [of "ordered_checks s stuId code"] by (simp add: r)
  show "calls (BindInvitation s stuId code) =
     concat (map fst (takeWhile (\<lambda>x. snd x = None) (ordered_checks s stuId code))) @
     (case dropWhile (\<lambda>x. snd x = None) (ordered_checks s stuId code) of
        [] \<Rightarrow> [] | x # rest \<Rightarrow> fst x)"
    using short_circuit_calls [of "ordered_checks s stuId code"] by (simp add: r)
next
  assume "ret (BindInvitation s stuId code) \<noteq> None"
  then show "background s (BindInvitation s stuId code) = []"
    by (simp add: background_def spawned_only_on_success)
next
  assume "\<not> IsKeyExist s (''code_mapping:'' @ code) \<and>
      GetCodeStuIdMappingCache s (''code_mapping:'' @ code) = (stuId, None)"
  then show "ret (BindInvitation s stuId code) = Some InvalidInvitationCode"
    by (simp add: BindInvitation_absent)
qed

theorem C9_witness:
  "\<not> IsKeyExist (mocked (tc_add_self_as_friend\<lparr>cacheExist := False\<rparr>)) (''code_mapping:'' @ ''ABCDEF'')
 \<and> GetCodeStuIdMappingCache (mocked (tc_add_self_as_friend\<lparr>cacheExist := False\<rparr>))
      (''code_mapping:'' @ ''ABCDEF'') = (''102300217'', None)
 \<and> ret (BindInvitation (mocked (tc_add_self_as_friend\<lparr>cacheExist := False\<rparr>)) ''102300217'' ''ABCDEF'')
      = Some InvalidInvitationCode
 \<and> ret (BindInvitation (mocked tc_db_create_error) ''102300217'' ''ABCDEF'') \<noteq> None
 \<and> background (mocked tc_db_create_error)
      (BindInvitation (mocked tc_db_create_error) ''102300217'' ''ABCDEF'') = []
 \<and> short_circuit (ordered_checks (mocked tc_db_create_error) ''102300217'' ''ABCDEF'')
      = ([CacheIsKeyExist ''code_mapping:ABCDEF'',
          CacheGetCodeStuIdMapping ''code_mapping:ABCDEF'',
          DBGetRelationByUserId ''102300217'' ''102300218'',
          DBCreateRelation ''102300217'' ''102300218''],
         Some (RelationCreateFailed ErrInvalidData))"
proof -
  let ?a = "mocked (tc_add_self_as_friend\<lparr>cacheExist := False\<rparr>)"
  let ?b = "mocked tc_db_create_error"
  have h1: "\<not> IsKeyExist ?a (''code_mapping:'' @ ''ABCDEF'') \<and>
      GetCodeStuIdMappingCache ?a (''code_mapping:'' @ ''ABCDEF'') = (''102300217'', None)"
    by (simp add: mocked_def zero_testCase_def tc_add_self_as_friend_def)
  have o: "BindInvitation ?b ''102300217'' ''ABCDEF'' =
      \<lparr>ret = Some (RelationCreateFailed ErrInvalidData),
       calls = [CacheIsKeyExist ''code_mapping:ABCDEF'',
          CacheGetCodeStuIdMapping ''code_mapping:ABCDEF'',
          DBGetRelationByUserId ''102300217'' ''102300218'',
          DBCreateRelation ''102300217'' ''102300218''],
       spawned = []\<rparr>"
    by (simp add: BindInvitation_def Let_def mocked_def zero_testCase_def tc_db_create_error_def)
  have h2: "ret (BindInvitation ?b ''102300217'' ''ABCDEF'') \<noteq> None"
    by (simp add: o)
  note A = C9_checks_in_order_short_circuit [of ?a "''102300217''" "''ABCDEF''"]
  note B = C9_checks_in_order_short_circuit [of ?b "''102300217''" "''ABCDEF''"]
  have r1: "ret (BindInvitation ?a ''102300217'' ''ABCDEF'') = Some InvalidInvitationCode"
    using A h1 by blast
  have r2: "background ?b (BindInvitation ?b ''102300217'' ''ABCDEF'') = []"
    using B h2 by blast
  have r3: "short_circuit (ordered_checks ?b ''102300217'' ''ABCDEF'')
      = (calls (BindInvitation ?b ''102300217'' ''ABCDEF''),
         ret (BindInvitation ?b ''102300217'' ''ABCDEF''))"
    using B by blast
  show ?thesis
    using h1 h2 r1 r2 r3 by (simp add: o)
qed


section \<open>The cache on the synchronous path\<close>

text \<open>
  C10. No call made before the return writes the cache, and the only cache calls made
  before the return are the reads \<^verbatim>\<open>IsKeyExist\<close> and \<^verbatim>\<open>GetCodeStuIdMappingCache\<close> on the
  derived key. A cache write of the background is the call
  \<^verbatim>\<open>SetUserFriendCache(friendId, stuId)\<close>, and it occurs only in a run that returned no
  error and whose last call before the return was a successful \<^verbatim>\<open>CreateRelation\<close>. When
  an error is returned, no call of the whole run writes the cache.
\<close>

theorem C10_synchronous_path_never_writes_cache:
  "(\<forall>e \<in> set (calls (BindInvitation s stuId code)).
      \<not> is_cache_write e
      \<and> (is_cache_read e \<longrightarrow>
           e = CacheIsKeyExist (''code_mapping:'' @ code) \<or>
           e = CacheGetCodeStuIdMapping (''code_mapping:'' @ code)))
 \<and> (\<forall>e \<in> set (background s (BindInvitation s stuId code)).
      is_cache_write e \<longrightarrow>
        e = CacheSetUserFriend (fst (GetCodeStuIdMappingCache s (''code_mapping:'' @ code))) stuId
        \<and> ret (BindInvitation s stuId code) = None
        \<and> last (calls (BindInvitation s stuId code))
            = DBCreateRelation stuId (fst (GetCodeStuIdMappingCache s (''code_mapping:'' @ code)))
        \<and> CreateRelation s stuId (fst (GetCodeStuIdMappingCache s (''code_mapping:'' @ code)))
            = None)
 \<and> (ret (BindInvitation s stuId code) \<noteq> None \<longrightarrow>
      (\<forall>e \<in> set (all_calls s (BindInvitation s stuId code)). \<not> is_cache_write e))"
proof (intro conjI ballI impI)
  fix e assume "e \<in> set (calls (BindInvitation s stuId code))"
  then show "\<not> is_cache_write e" by (rule calls_never_write_cache)
next
  fix e assume "e \<in> set (calls (BindInvitation s stuId code))" "is_cache_read e"
  then show "e = CacheIsKeyExist (''code_mapping:'' @ code) \<or>
           e = CacheGetCodeStuIdMapping (''code_mapping:'' @ code)"
    by (rule calls_cache_reads)
next
  fix e assume h: "e \<in> set (background s (BindInvitation s stuId code))" "is_cache_write e"
  note r = background_after_create [OF h]
  show "e = CacheSetUserFriend (fst (GetCodeStuIdMappingCache s (''code_mapping:'' @ code))) stuId"
    using r by blast
  show "ret (BindInvitation s stuId code) = None" using r by blast
  show "last (calls (BindInvitation s stuId code))
            = DBCreateRelation stuId (fst (GetCodeStuIdMappingCache s (''code_mapping:'' @ code)))"
    using r by blast
  show "CreateRelation s stuId (fst (GetCodeStuIdMappingCache s (''code_mapping:'' @ code)))
            = None"
    using r by blast
next
  fix e
  assume "ret (BindInvitation s stuId code) \<noteq> None"
     and "e \<in> set (all_calls s (BindInvitation s stuId code))"
  then have "e \<in> set (calls (BindInvitation s stuId code))"
    by (simp add: all_calls_def background_def spawned_only_on_success)
  then show "\<not> is_cache_write e" by (rule calls_never_write_cache)
qed

theorem C10_witness:
  "CacheIsKeyExist ''code_mapping:ABCDEF''
     \<in> set (calls (BindInvitation (mocked tc_success) ''102300217'' ''ABCDEF''))
 \<and> \<not> is_cache_write (CacheIsKeyExist ''code_mapping:ABCDEF'')
 \<and> CacheSetUserFriend ''102300218'' ''102300217''
     \<in> set (background (mocked tc_success)
              (BindInvitation (mocked tc_success) ''102300217'' ''ABCDEF''))
 \<and> is_cache_write (CacheSetUserFriend ''102300218'' ''102300217'')
 \<and> ret (BindInvitation (mocked tc_success) ''102300217'' ''ABCDEF'') = None
 \<and> ret (BindInvitation (mocked tc_relation_already_exist) ''102300217'' ''ABCDEF'') \<noteq> None
 \<and> CacheGetCodeStuIdMapping ''code_mapping:ABCDEF''
     \<in> set (all_calls (mocked tc_relation_already_exist)
              (BindInvitation (mocked tc_relation_already_exist) ''102300217'' ''ABCDEF''))
 \<and> \<not> is_cache_write (CacheGetCodeStuIdMapping ''code_mapping:ABCDEF'')"
proof -
  let ?s = "mocked tc_success" and ?r = "mocked tc_relation_already_exist"
  have o: "BindInvitation ?s ''102300217'' ''ABCDEF'' =
      \<lparr>ret = None,
       calls = [CacheIsKeyExist ''code_mapping:ABCDEF'',
          CacheGetCodeStuIdMapping ''code_mapping:ABCDEF'',
          DBGetRelationByUserId ''102300217'' ''102300218'',
          DBCreateRelation ''102300217'' ''102300218''],
       spawned = [BindInvitation_func1 ''102300218'' ''102300217'']\<rparr>"
    by (simp add: BindInvitation_def Let_def mocked_def zero_testCase_def tc_success_def)
  have m1: "CacheIsKeyExist ''code_mapping:ABCDEF''
      \<in> set (calls (BindInvitation ?s ''102300217'' ''ABCDEF''))"
    by (simp add: o)
  have m2: "CacheSetUserFriend ''102300218'' ''102300217''
      \<in> set (background ?s (BindInvitation ?s ''102300217'' ''ABCDEF''))"
    by (simp add: o background_def Let_def split: option.splits)
  have w: "is_cache_write (CacheSetUserFriend ''102300218'' ''102300217'')"
    by simp
  have e: "ret (BindInvitation ?r ''102300217'' ''ABCDEF'') \<noteq> None"
    by (simp add: BindInvitation_def Let_def mocked_def zero_testCase_def
          tc_relation_already_exist_def)
  note S = C10_synchronous_path_never_writes_cache [of ?s "''102300217''" "''ABCDEF''"]
  note R = C10_synchronous_path_never_writes_cache [of ?r "''102300217''" "''ABCDEF''"]
  have r1: "\<not> is_cache_write (CacheIsKeyExist ''code_mapping:ABCDEF'')"
    using S m1 by blast
  have r2: "ret (BindInvitation ?s ''102300217'' ''ABCDEF'') = None"
    using S m2 w by blast
  have m3: "CacheGetCodeStuIdMapping ''code_mapping:ABCDEF''
      \<in> set (all_calls ?r (BindInvitation ?r ''102300217'' ''ABCDEF''))"
    by (simp add: BindInvitation_def all_calls_def Let_def mocked_def zero_testCase_def
          tc_relation_already_exist_def)
  have r3: "\<not> is_cache_write (CacheGetCodeStuIdMapping ''code_mapping:ABCDEF'')"
    using R e m3 by blast
  show ?thesis
    using m1 m2 m3 w e r1 r2 r3 by blast
qed

end
